theory Spec2Isabelle
  imports Complex_Main "HOL-Library.Product_Lexorder" "HOL-Library.Multiset"
begin

section \<open>Values\<close>

text \<open>
  A Python float is either not-a-number or a finite number. Finite numbers are taken
  exactly (as rationals): the rounding of binary floating point is not part of this
  model, and neither are the infinities. Arithmetic propagates NaN as IEEE 754 does.
\<close>

datatype pyfloat = NaN | Fin rat

fun isnan :: "pyfloat \<Rightarrow> bool" where
  "isnan NaN = True"
| "isnan (Fin x) = False"

fun fadd :: "pyfloat \<Rightarrow> pyfloat \<Rightarrow> pyfloat" where
  "fadd (Fin a) (Fin b) = Fin (a + b)"
| "fadd _ _ = NaN"

fun fsub :: "pyfloat \<Rightarrow> pyfloat \<Rightarrow> pyfloat" where
  "fsub (Fin a) (Fin b) = Fin (a - b)"
| "fsub _ _ = NaN"

fun fmul :: "pyfloat \<Rightarrow> pyfloat \<Rightarrow> pyfloat" where
  "fmul (Fin a) (Fin b) = Fin (a * b)"
| "fmul _ _ = NaN"

text \<open>
  A cell of a frame read from a CSV file holds a number (NaN when the field is empty)
  or a piece of text that does not spell a number.
\<close>

datatype cell = Num pyfloat | Text string

fun isna :: "cell \<Rightarrow> bool" where
  "isna (Num x) = isnan x"
| "isna (Text s) = False"

datatype error = IndexError | KeyError | ValueError | BadOperand

text \<open>
  \<open>IndexError\<close>, \<open>KeyError\<close> and \<open>ValueError\<close> are Python's exceptions of these names.
  \<open>BadOperand\<close> stands for the exception Python raises when a \<open>str\<close> reaches the
  float arithmetic or a float format specification (a TypeError in the first case, a
  ValueError in the second).
\<close>

section \<open>Formatting (\<open>_write_pt\<close>)\<close>

definition digit_char :: "nat \<Rightarrow> char" where
  "digit_char d = char_of (48 + d)"

function decimal :: "int \<Rightarrow> string" where
  "decimal n =
     (if n < 10 then [digit_char (nat n)]
      else decimal (n div 10) @ [digit_char (nat (n mod 10))])"
  by pat_completeness auto
termination
  by (relation "measure nat") auto

declare decimal.simps [simp del]

definition round_half_even :: "rat \<Rightarrow> int" where
  "round_half_even x =
     (let f = \<lfloor>x\<rfloor>; d = x - of_int f
      in if d < 1 / 2 then f else if 1 / 2 < d then f + 1 else if even f then f else f + 1)"

text \<open>The format specification \<open>.pf\<close> (\<open>p\<close> digits after the point) on a finite number.\<close>

definition fmt_fixed :: "nat \<Rightarrow> rat \<Rightarrow> string" where
  "fmt_fixed p x =
     (let n = round_half_even (\<bar>x\<bar> * 10 ^ p);
          frac = decimal (n mod 10 ^ p)
      in (if x < 0 then ''-'' else '''') @ decimal (n div 10 ^ p) @
         (if p = 0 then '''' else ''.'' @ replicate (p - length frac) (CHR ''0'') @ frac))"

fun fmt_float :: "nat \<Rightarrow> pyfloat \<Rightarrow> string" where
  "fmt_float p NaN = ''nan''"
| "fmt_float p (Fin x) = fmt_fixed p x"

text \<open>
  A \<open>trkpt\<close> element: the \<open>lat\<close> and \<open>lon\<close> attributes and the text of the \<open>ele\<close>
  child as \<open>_write_pt\<close> formats them, and the instant handed to \<open>strftime\<close> (in seconds
  since the epoch; its rendering as a calendar date is not modelled).
\<close>

record trkpt =
  pt_lat :: string
  pt_lon :: string
  pt_ele :: string
  pt_time :: rat

definition write_pt :: "trkpt list \<Rightarrow> pyfloat \<Rightarrow> pyfloat \<Rightarrow> pyfloat \<Rightarrow> rat \<Rightarrow> trkpt list" where
  "write_pt trkseg la lo el time_obj =
     trkseg @ [\<lparr>pt_lat = fmt_float 6 la, pt_lon = fmt_float 6 lo,
                pt_ele = fmt_float 2 el, pt_time = time_obj\<rparr>]"

section \<open>The track builder (\<open>process_and_generate_gpx\<close>, the loop)\<close>

definition MAX_GAP_SECONDS :: rat where
  "MAX_GAP_SECONDS = 300"

definition INTERPOLATION_STEP :: rat where
  "INTERPOLATION_STEP = 1"

text \<open>What the loop reads of a row: \<open>dt_object\<close>, \<open>lat\<close>, \<open>lon\<close> and \<open>ele\<close>.\<close>

record crecord =
  dt_object :: rat
  lat :: pyfloat
  lon :: pyfloat
  ele :: pyfloat

text \<open>
  The state of the loop: the \<open>trkseg\<close> elements of \<open>trk\<close> that are no longer current,
  the current \<open>trkseg\<close>, and the counter.
\<close>

record builder =
  closed :: "trkpt list list"
  trkseg :: "trkpt list"
  count_generated :: nat

text \<open>Python's \<open>int(x)\<close> on a float truncates towards zero.\<close>

definition py_int :: "rat \<Rightarrow> int" where
  "py_int x = (if 0 \<le> x then \<lfloor>x\<rfloor> else \<lceil>x\<rceil>)"

text \<open>The body of the inner loop, for one value of \<open>step\<close>.\<close>

definition interpolate :: "crecord \<Rightarrow> crecord \<Rightarrow> int \<Rightarrow> builder \<Rightarrow> nat \<Rightarrow> builder" where
  "interpolate cur next_p steps b step =
     (let fraction = Fin (of_nat step / of_int steps);
          i_lat = fadd (lat cur) (fmul (fsub (lat next_p) (lat cur)) fraction);
          i_lon = fadd (lon cur) (fmul (fsub (lon next_p) (lon cur)) fraction);
          i_ele = fadd (ele cur) (fmul (fsub (ele next_p) (ele cur)) fraction);
          i_time = dt_object cur + of_nat step
      in b\<lparr>trkseg := write_pt (trkseg b) i_lat i_lon i_ele i_time,
           count_generated := count_generated b + 1\<rparr>)"

text \<open>The body of the outer loop, for one pair of neighbouring rows.\<close>

definition pair_step :: "crecord \<Rightarrow> crecord \<Rightarrow> builder \<Rightarrow> builder" where
  "pair_step cur next_p b =
     (let time_diff = dt_object next_p - dt_object cur
      in if time_diff > MAX_GAP_SECONDS then
           b\<lparr>closed := closed b @
                  [write_pt (trkseg b) (lat cur) (lon cur) (ele cur) (dt_object cur)],
             trkseg := []\<rparr>
         else if time_diff \<le> INTERPOLATION_STEP then
           b\<lparr>trkseg := write_pt (trkseg b) (lat cur) (lon cur) (ele cur) (dt_object cur),
             count_generated := count_generated b + 1\<rparr>
         else
           (let steps = py_int (time_diff / INTERPOLATION_STEP)
            in foldl (interpolate cur next_p steps) b [0..<nat steps]))"

fun loop :: "crecord list \<Rightarrow> builder \<Rightarrow> builder" where
  "loop (cur # next_p # rest) b = loop (next_p # rest) (pair_step cur next_p b)"
| "loop rs b = b"

text \<open>
  Lines 68 to 110 on the rows that are left after sorting and filtering: the loop, the
  write of the last row (\<open>df.iloc[-1]\<close> raises IndexError on an empty frame), and the
  result: the segments of the track in document order, and the counter.
\<close>

definition build_track :: "crecord list \<Rightarrow> error + (trkpt list list \<times> nat)" where
  "build_track rs =
     (let b = loop rs \<lparr>closed = [], trkseg = [], count_generated = 0\<rparr>
      in case rs of
           [] \<Rightarrow> Inl IndexError
         | _ # _ \<Rightarrow>
             (let l = last rs
              in Inr (closed b @ [write_pt (trkseg b) (lat l) (lon l) (ele l) (dt_object l)],
                      count_generated b)))"

section \<open>Frames\<close>

text \<open>
  A frame as \<open>pandas.read_csv\<close> returns it: the column labels of the header, and the
  rows, each with one cell per column. A label selects the first column that carries it:
  the frame is read as a mapping from labels to columns, and a frame in which a label
  occurs twice after trimming and renaming (where pandas answers \<open>df[label]\<close> with a
  frame instead of a column) is outside this model.
\<close>

record dataframe =
  columns :: "string list"
  rows :: "cell list list"

text \<open>\<open>row[label]\<close>; a row that is too short reads as padded with NaN.\<close>

definition get :: "string list \<Rightarrow> cell list \<Rightarrow> string \<Rightarrow> cell" where
  "get cols r label = (case map_of (zip cols r) label of Some c \<Rightarrow> c | None \<Rightarrow> Num NaN)"

text \<open>Apply \<open>f\<close> to the cell of a row under a label.\<close>

fun update_at :: "string \<Rightarrow> (cell \<Rightarrow> cell) \<Rightarrow> string list \<Rightarrow> cell list \<Rightarrow> cell list" where
  "update_at label f (c # cs) (x # xs) =
     (if c = label then f x # xs else x # update_at label f cs xs)"
| "update_at label f cs xs = xs"

section \<open>The schema normalizer (\<open>standardize_dataframe\<close>)\<close>

text \<open>
  The characters \<open>str.strip()\<close> removes, among the code points below 256: the ASCII
  white space, the four separators 28 to 31, next line (133) and the no-break space (160).
\<close>

definition py_isspace :: "char \<Rightarrow> bool" where
  "py_isspace c = (of_char c \<in> {9, 10, 11, 12, 13, 28, 29, 30, 31, 32, 133, 160 :: nat})"

definition strip :: "string \<Rightarrow> string" where
  "strip s = rev (dropWhile py_isspace (rev (dropWhile py_isspace s)))"

text \<open>\<open>df.rename(columns = m)\<close> on the labels.\<close>

definition rename :: "(string \<times> string) list \<Rightarrow> string list \<Rightarrow> string list" where
  "rename m cols = map (\<lambda>c. case map_of m c of Some c' \<Rightarrow> c' | None \<Rightarrow> c) cols"

text \<open>\<open>pd.to_numeric(..., errors='coerce')\<close> on one cell.\<close>

fun to_numeric :: "cell \<Rightarrow> cell" where
  "to_numeric (Num x) = Num x"
| "to_numeric (Text s) = Num NaN"

definition standardize_dataframe :: "dataframe \<Rightarrow> string \<Rightarrow> (dataframe \<times> string) option" where
  "standardize_dataframe df filename =
     (let cols = map strip (columns df)
      in if ''Time'' \<in> set cols \<and> ''Latitude'' \<in> set cols \<and> ''Longitude'' \<in> set cols then
           (let cols' = rename [(''Time'', ''timestamp''), (''Latitude'', ''lat''),
                                (''Longitude'', ''lon''), (''Height'', ''ele'')] cols
            in Some (\<lparr>columns = cols',
                       rows = map (update_at ''timestamp'' to_numeric cols') (rows df)\<rparr>,
                     ''Variflight''))
         else if ''dataTime'' \<in> set cols \<and> ''latitude'' \<in> set cols \<and> ''longitude'' \<in> set cols then
           (let cols' = rename [(''dataTime'', ''timestamp''), (''latitude'', ''lat''),
                                (''longitude'', ''lon''), (''altitude'', ''ele'')] cols
            in Some (\<lparr>columns = cols',
                       rows = map (update_at ''timestamp'' to_numeric cols') (rows df)\<rparr>,
                     ''Footprint''))
         else None)"

section \<open>\<open>process_and_generate_gpx\<close>\<close>

fun is_text :: "cell \<Rightarrow> bool" where
  "is_text (Text s) = True"
| "is_text (Num x) = False"

text \<open>
  \<open>pd.to_datetime(..., unit='s')\<close> on one number: NaN becomes NaT (\<open>None\<close>). The
  instant is kept in seconds; its rounding to nanoseconds and the range of
  \<open>datetime64[ns]\<close> are not modelled.
\<close>

fun to_datetime :: "cell \<Rightarrow> rat option" where
  "to_datetime (Num (Fin t)) = Some t"
| "to_datetime c = None"

text \<open>The key of \<open>sort_values\<close>: ascending, NaT last.\<close>

fun na_last :: "rat option \<Rightarrow> bool \<times> rat" where
  "na_last None = (True, 0)"
| "na_last (Some t) = (False, t)"

text \<open>The rows that \<open>dropna(subset=['lat', 'lon', 'timestamp'])\<close> keeps.\<close>

definition notna :: "string list \<Rightarrow> cell list \<Rightarrow> bool" where
  "notna cols r =
     (\<not> isna (get cols r ''lat'') \<and> \<not> isna (get cols r ''lon'') \<and> \<not> isna (get cols r ''timestamp''))"

text \<open>
  What the loop reads of a row that was kept; \<open>None\<close> when a coordinate or the
  elevation is text, on which the arithmetic and the formatting raise.
\<close>

definition as_crecord :: "string list \<Rightarrow> cell list \<Rightarrow> crecord option" where
  "as_crecord cols r =
     (case (get cols r ''timestamp'', get cols r ''lat'', get cols r ''lon'', get cols r ''ele'') of
        (Num (Fin t), Num la, Num lo, Num el) \<Rightarrow>
          Some \<lparr>dt_object = t, lat = la, lon = lo, ele = el\<rparr>
      | _ \<Rightarrow> None)"

definition basename :: "string \<Rightarrow> string" where
  "basename p = rev (takeWhile (\<lambda>c. c \<noteq> CHR ''/'') (rev p))"

text \<open>\<open>s.replace('.gpx', '')\<close>.\<close>

function remove_gpx :: "string \<Rightarrow> string" where
  "remove_gpx s =
     (if s = [] then []
      else if take 4 s = ''.gpx'' then remove_gpx (drop 4 s)
      else hd s # remove_gpx (tl s))"
  by pat_completeness auto
termination
  by (relation "measure length") auto

declare remove_gpx.simps [simp del]

record gpx =
  trk_name :: string
  trksegs :: "trkpt list list"

text \<open>
  Lines 61 to 66: the default elevation, the sort by instant and the removal of the rows
  without a time or a position. \<open>track_records\<close> is the list of rows the loop runs
  over; an exception raised on the way (a missing column, text where a time is expected,
  text in a coordinate of a row that is kept) ends the conversion.
\<close>

definition with_ele :: "dataframe \<Rightarrow> dataframe" where
  "with_ele df =
     (if ''ele'' \<notin> set (columns df)
      then \<lparr>columns = columns df @ [''ele''], rows = map (\<lambda>r. r @ [Num (Fin 0)]) (rows df)\<rparr>
      else df)"

text \<open>
  \<open>sort_values\<close> sorts by instant. Among rows with the same instant the order that
  pandas returns is not fixed by its default algorithm; the model keeps their order in
  the file. The properties of the loop below are proved for every list of rows.
\<close>

definition sort_values :: "string list \<Rightarrow> cell list list \<Rightarrow> cell list list" where
  "sort_values cols rs = sort_key (\<lambda>r. na_last (to_datetime (get cols r ''timestamp''))) rs"

definition dropna :: "string list \<Rightarrow> cell list list \<Rightarrow> cell list list" where
  "dropna cols rs = filter (notna cols) rs"

definition track_records :: "dataframe \<Rightarrow> error + crecord list" where
  "track_records df0 =
     (let df = with_ele df0; cols = columns df
      in if ''timestamp'' \<notin> set cols then Inl KeyError
         else if list_ex (\<lambda>r. is_text (get cols r ''timestamp'')) (rows df) then Inl ValueError
         else if ''lat'' \<notin> set cols \<or> ''lon'' \<notin> set cols then Inl KeyError
         else
           (case those (map (as_crecord cols) (dropna cols (sort_values cols (rows df)))) of
              None \<Rightarrow> Inl BadOperand
            | Some rs \<Rightarrow> Inr rs))"

definition process_and_generate_gpx :: "dataframe \<Rightarrow> string \<Rightarrow> error + (gpx \<times> nat)" where
  "process_and_generate_gpx df output_path =
     (case track_records df of
        Inl e \<Rightarrow> Inl e
      | Inr rs \<Rightarrow>
         (case build_track rs of
            Inl e \<Rightarrow> Inl e
          | Inr (segs, n) \<Rightarrow>
              Inr (\<lparr>trk_name = remove_gpx (basename output_path), trksegs = segs\<rparr>, n)))"

section \<open>\<open>main\<close>\<close>

text \<open>
  What \<open>main\<close> prints for a file: the conversion (format, number of points, path of the
  output), the skip of a frame whose columns are not recognized, or the exception.
\<close>

datatype report = Converted string nat string | Unrecognized | Failed error

definition OUTPUT_FOLDER :: string where
  "OUTPUT_FOLDER = ''output''"

text \<open>The first component of \<open>os.path.splitext\<close> on a file name.\<close>

definition splitext_root :: "string \<Rightarrow> string" where
  "splitext_root p =
     (let rest = dropWhile (\<lambda>c. c \<noteq> CHR ''.'') (rev p)
      in if rest = [] \<or> list_all (\<lambda>c. c = CHR ''.'') (tl rest) then p else rev (tl rest))"

text \<open>
  The loop of \<open>main\<close> over the files found, each given by its name and by what
  \<open>pd.read_csv\<close> makes of it (a frame or an exception). The result: the files written,
  in order, and the reports.
\<close>

fun main :: "(string \<times> (error + dataframe)) list \<Rightarrow> (string \<times> gpx) list \<times> report list" where
  "main [] = ([], [])"
| "main ((filename, csv) # files) =
     (let (written, reports) = main files
      in case csv of
           Inl e \<Rightarrow> (written, Failed e # reports)
         | Inr df \<Rightarrow>
            (case standardize_dataframe df filename of
               None \<Rightarrow> (written, Unrecognized # reports)
             | Some (std_df, fmt_type) \<Rightarrow>
                (let output_path = OUTPUT_FOLDER @ ''/'' @ splitext_root filename @ ''.gpx''
                 in case process_and_generate_gpx std_df output_path of
                      Inl e \<Rightarrow> (written, Failed e # reports)
                    | Inr (g, pts_count) \<Rightarrow>
                        ((output_path, g) # written,
                         Converted fmt_type pts_count output_path # reports))))"

section \<open>Notions used in the statements\<close>

text \<open>
  Linear interpolation between two floats, the point written for a row itself, the point
  written for one step of the interpolation, the points one pass of the loop writes, the
  points the whole loop writes, and the number of passes that open a new segment.
\<close>

definition lerp :: "pyfloat \<Rightarrow> pyfloat \<Rightarrow> rat \<Rightarrow> pyfloat" where
  "lerp a b f = fadd a (fmul (fsub b a) (Fin f))"

definition own_point :: "crecord \<Rightarrow> trkpt" where
  "own_point r = \<lparr>pt_lat = fmt_float 6 (lat r), pt_lon = fmt_float 6 (lon r),
                   pt_ele = fmt_float 2 (ele r), pt_time = dt_object r\<rparr>"

definition interp_point :: "crecord \<Rightarrow> crecord \<Rightarrow> nat \<Rightarrow> nat \<Rightarrow> trkpt" where
  "interp_point cur next_p steps step =
     \<lparr>pt_lat = fmt_float 6 (lerp (lat cur) (lat next_p) (of_nat step / of_nat steps)),
      pt_lon = fmt_float 6 (lerp (lon cur) (lon next_p) (of_nat step / of_nat steps)),
      pt_ele = fmt_float 2 (lerp (ele cur) (ele next_p) (of_nat step / of_nat steps)),
      pt_time = dt_object cur + of_nat step\<rparr>"

definition gap :: "crecord \<Rightarrow> crecord \<Rightarrow> rat" where
  "gap cur next_p = dt_object next_p - dt_object cur"

definition emitted :: "crecord \<Rightarrow> crecord \<Rightarrow> trkpt list" where
  "emitted cur next_p =
     (if gap cur next_p > MAX_GAP_SECONDS \<or> gap cur next_p \<le> INTERPOLATION_STEP then [own_point cur]
      else map (interp_point cur next_p (nat \<lfloor>gap cur next_p / INTERPOLATION_STEP\<rfloor>))
             [0..<nat \<lfloor>gap cur next_p / INTERPOLATION_STEP\<rfloor>])"

fun emissions :: "crecord list \<Rightarrow> trkpt list" where
  "emissions (cur # next_p # rest) = emitted cur next_p @ emissions (next_p # rest)"
| "emissions rs = []"

fun splits :: "crecord list \<Rightarrow> nat" where
  "splits (cur # next_p # rest) =
     (if gap cur next_p > MAX_GAP_SECONDS then 1 else 0) + splits (next_p # rest)"
| "splits rs = 0"





section \<open>The order of the first steps in the specification\<close>

text \<open>
  The specification of the track builder drops the rows without a time or a position
  first and sorts afterwards; the code sorts first. \<open>spec_track_records\<close> and
  \<open>spec_process_and_generate_gpx\<close> follow the words of the specification; everything
  else is as in \<open>track_records\<close> and \<open>process_and_generate_gpx\<close>.
\<close>

definition spec_track_records :: "dataframe \<Rightarrow> error + crecord list" where
  "spec_track_records df0 =
     (let df = with_ele df0; cols = columns df
      in if ''timestamp'' \<notin> set cols then Inl KeyError
         else if list_ex (\<lambda>r. is_text (get cols r ''timestamp'')) (rows df) then Inl ValueError
         else if ''lat'' \<notin> set cols \<or> ''lon'' \<notin> set cols then Inl KeyError
         else
           (case those (map (as_crecord cols) (sort_values cols (dropna cols (rows df)))) of
              None \<Rightarrow> Inl BadOperand
            | Some rs \<Rightarrow> Inr rs))"

definition spec_process_and_generate_gpx :: "dataframe \<Rightarrow> string \<Rightarrow> error + (gpx \<times> nat)" where
  "spec_process_and_generate_gpx df output_path =
     (case spec_track_records df of
        Inl e \<Rightarrow> Inl e
      | Inr rs \<Rightarrow>
         (case build_track rs of
            Inl e \<Rightarrow> Inl e
          | Inr (segs, n) \<Rightarrow>
              Inr (\<lparr>trk_name = remove_gpx (basename output_path), trksegs = segs\<rparr>, n)))"

section \<open>The loop, pass by pass\<close>

lemma interpolate_point:
  "interpolate cur next_p (int s) b k =
     b\<lparr>trkseg := trkseg b @ [interp_point cur next_p s k],
       count_generated := count_generated b + 1\<rparr>"
  by (simp add: interpolate_def write_pt_def interp_point_def lerp_def Let_def)

lemma foldl_interpolate:
  "foldl (interpolate cur next_p (int s)) b [0..<k] =
     b\<lparr>trkseg := trkseg b @ map (interp_point cur next_p s) [0..<k],
       count_generated := count_generated b + k\<rparr>"
  by (induction k) (simp_all add: interpolate_point)

lemma write_pt_own: "write_pt seg (lat r) (lon r) (ele r) (dt_object r) = seg @ [own_point r]"
  by (simp add: write_pt_def own_point_def)

lemma py_int_steps:
  "INTERPOLATION_STEP < g \<Longrightarrow> py_int (g / INTERPOLATION_STEP) = int (nat \<lfloor>g / INTERPOLATION_STEP\<rfloor>)"
  by (simp add: py_int_def INTERPOLATION_STEP_def)

lemma pair_step_emitted:
  "pair_step cur next_p b =
     (if gap cur next_p > MAX_GAP_SECONDS
      then b\<lparr>closed := closed b @ [trkseg b @ emitted cur next_p], trkseg := []\<rparr>
      else b\<lparr>trkseg := trkseg b @ emitted cur next_p,
             count_generated := count_generated b + length (emitted cur next_p)\<rparr>)"
proof (cases "gap cur next_p > MAX_GAP_SECONDS \<or> gap cur next_p \<le> INTERPOLATION_STEP")
  case True
  then show ?thesis
    by (auto simp add: pair_step_def Let_def gap_def emitted_def write_pt_own)
next
  case False
  then have g: "INTERPOLATION_STEP < gap cur next_p" by simp
  have "pair_step cur next_p b =
      foldl (interpolate cur next_p (py_int (gap cur next_p / INTERPOLATION_STEP))) b
        [0..<nat (py_int (gap cur next_p / INTERPOLATION_STEP))]"
    using False by (simp add: pair_step_def Let_def gap_def)
  also have "\<dots> = b\<lparr>trkseg := trkseg b @ emitted cur next_p,
             count_generated := count_generated b + length (emitted cur next_p)\<rparr>"
    using False unfolding py_int_steps [OF g] foldl_interpolate nat_int
    by (simp add: emitted_def)
  finally show ?thesis using False by simp
qed


lemma length_emitted_gap: "gap cur next_p > MAX_GAP_SECONDS \<Longrightarrow> length (emitted cur next_p) = 1"
  by (simp add: emitted_def)



lemma loop_count:
  "count_generated (loop rs b) + splits rs = count_generated b + length (emissions rs)"
proof (induction rs b rule: loop.induct)
  case (1 cur next_p rest b)
  show ?case
  proof (cases "gap cur next_p > MAX_GAP_SECONDS")
    case True
    with 1 show ?thesis by (simp add: pair_step_emitted length_emitted_gap)
  next
    case False
    with 1 show ?thesis by (simp add: pair_step_emitted)
  qed
qed simp_all





























section \<open>Interpolation\<close>




section \<open>Segments\<close>




section \<open>Order of the points\<close>



section \<open>The counter\<close>



section \<open>Schema detection\<close>

text \<open>\<open>strip\<close> removes the white space around a name and nothing else.\<close>

lemma strip_surrounding:
  assumes "list_all py_isspace a" and "list_all py_isspace b"
    and "s \<noteq> []" and "\<not> py_isspace (hd s)" and "\<not> py_isspace (last s)"
  shows "strip (a @ s @ b) = s"
proof -
  from assms(3,4) have h: "dropWhile py_isspace s = s" by (cases s) simp_all
  from assms(3,5) have l: "dropWhile py_isspace (rev s) = rev s"
    by (cases s rule: rev_cases) simp_all
  from assms(1) have "dropWhile py_isspace (a @ s @ b) = dropWhile py_isspace (s @ b)"
    by (simp add: list_all_iff)
  also from assms(3,4) have "\<dots> = s @ b" by (cases s) simp_all
  finally have "strip (a @ s @ b) = rev (dropWhile py_isspace (rev b @ rev s))"
    by (simp add: strip_def)
  also from assms(2) have "dropWhile py_isspace (rev b @ rev s) = dropWhile py_isspace (rev s)"
    by (intro dropWhile_append2) (simp add: list_all_iff)
  finally show ?thesis by (simp add: l)
qed



section \<open>Unrecognized columns\<close>

lemma main_append:
  "main (xs @ ys) = (fst (main xs) @ fst (main ys), snd (main xs) @ snd (main ys))"
proof (induction xs)
  case Nil
  show ?case by simp
next
  case (Cons x xs)
  obtain filename csv where x: "x = (filename, csv)" by (cases x)
  show ?case unfolding x
    using Cons.IH
    by (simp add: case_prod_unfold Let_def split: sum.splits option.splits)
qed

text \<open>
  Claim C7. On a frame whose trimmed column names match neither format,
  \<open>standardize_dataframe\<close> returns \<open>None\<close> (it has no exception to raise there); \<open>main\<close>
  writes no file for it, reports the skip, and converts the files before and after it as
  it would without it.
\<close>

theorem C7_unrecognized_is_skipped:
  assumes "\<not> {''Time'', ''Latitude'', ''Longitude''} \<subseteq> set (map strip (columns df))"
    and "\<not> {''dataTime'', ''latitude'', ''longitude''} \<subseteq> set (map strip (columns df))"
  shows "standardize_dataframe df filename = None \<and>
         main (before @ (filename, Inr df) # after) =
           (fst (main before) @ fst (main after),
            snd (main before) @ Unrecognized # snd (main after))"
proof -
  from assms have n: "standardize_dataframe df filename = None"
    by (simp add: standardize_dataframe_def Let_def)
  have "main ((filename, Inr df) # after) = (fst (main after), Unrecognized # snd (main after))"
    by (simp add: n case_prod_unfold Let_def)
  with n show ?thesis by (simp add: main_append [of before])
qed


theorem C7_unrecognized_is_skipped_witness:
  "\<not> {''Time'', ''Latitude'', ''Longitude''} \<subseteq> set (map strip [''x'', ''y'', ''z'']) \<and>
   \<not> {''dataTime'', ''latitude'', ''longitude''} \<subseteq> set (map strip [''x'', ''y'', ''z'']) \<and>
   standardize_dataframe \<lparr>columns = [''x'', ''y'', ''z''], rows = [[Num (Fin 1), Num (Fin 2), Num (Fin 3)]]\<rparr>
     ''b.csv'' = None \<and>
   main [(''a.csv'', Inr \<lparr>columns = [''dataTime'', ''latitude'', ''longitude''],
                            rows = [[Num (Fin 0), Num (Fin 1), Num (Fin 2)]]\<rparr>),
         (''b.csv'', Inr \<lparr>columns = [''x'', ''y'', ''z''], rows = [[Num (Fin 1), Num (Fin 2), Num (Fin 3)]]\<rparr>),
         (''c.csv'', Inr \<lparr>columns = [''Time'', ''Latitude'', ''Longitude'', ''Height''],
                            rows = [[Num (Fin 5), Num (Fin 1), Num (Fin 2), Num (Fin 7)]]\<rparr>)] =
     ([(''output/a.gpx'',
        \<lparr>trk_name = ''a'',
         trksegs = [[\<lparr>pt_lat = ''1.000000'', pt_lon = ''2.000000'', pt_ele = ''0.00'', pt_time = 0\<rparr>]]\<rparr>),
       (''output/c.gpx'',
        \<lparr>trk_name = ''c'',
         trksegs = [[\<lparr>pt_lat = ''1.000000'', pt_lon = ''2.000000'', pt_ele = ''7.00'', pt_time = 5\<rparr>]]\<rparr>)],
      [Converted ''Footprint'' 0 ''output/a.gpx'', Unrecognized,
       Converted ''Variflight'' 0 ''output/c.gpx''])"
proof -
  let ?df = "\<lparr>columns = [''x'', ''y'', ''z''], rows = [[Num (Fin 1), Num (Fin 2), Num (Fin 3)]]\<rparr>"
  have s: "strip ''x'' = ''x''" "strip ''y'' = ''y''" "strip ''z'' = ''z''" by code_simp+
  have p1: "\<not> {''Time'', ''Latitude'', ''Longitude''} \<subseteq> set (map strip (columns ?df))"
    and p2: "\<not> {''dataTime'', ''latitude'', ''longitude''} \<subseteq> set (map strip (columns ?df))"
    by (simp_all add: s)
  have m1: "main [(''a.csv'', Inr \<lparr>columns = [''dataTime'', ''latitude'', ''longitude''],
                            rows = [[Num (Fin 0), Num (Fin 1), Num (Fin 2)]]\<rparr>)] =
     ([(''output/a.gpx'',
        \<lparr>trk_name = ''a'',
         trksegs = [[\<lparr>pt_lat = ''1.000000'', pt_lon = ''2.000000'', pt_ele = ''0.00'', pt_time = 0\<rparr>]]\<rparr>)], [Converted ''Footprint'' 0 ''output/a.gpx''])"
    by code_simp
  have m2: "main [(''c.csv'', Inr \<lparr>columns = [''Time'', ''Latitude'', ''Longitude'', ''Height''],
                            rows = [[Num (Fin 5), Num (Fin 1), Num (Fin 2), Num (Fin 7)]]\<rparr>)] =
     ([(''output/c.gpx'',
        \<lparr>trk_name = ''c'',
         trksegs = [[\<lparr>pt_lat = ''1.000000'', pt_lon = ''2.000000'', pt_ele = ''7.00'', pt_time = 5\<rparr>]]\<rparr>)], [Converted ''Variflight'' 0 ''output/c.gpx''])"
    by code_simp
  from C7_unrecognized_is_skipped [OF p1 p2, of "''b.csv''" "[(''a.csv'', Inr \<lparr>columns = [''dataTime'', ''latitude'', ''longitude''],
                            rows = [[Num (Fin 0), Num (Fin 1), Num (Fin 2)]]\<rparr>)]" "[(''c.csv'', Inr \<lparr>columns = [''Time'', ''Latitude'', ''Longitude'', ''Height''],
                            rows = [[Num (Fin 5), Num (Fin 1), Num (Fin 2), Num (Fin 7)]]\<rparr>)]"] p1 p2 m1 m2
  show ?thesis by (simp del: main.simps)
qed


section \<open>Dropping before sorting, or after\<close>

lemma sorted_by_key_unique:
  fixes f :: "'a \<Rightarrow> 'k::linorder"
  assumes "mset xs = mset ys" and "sorted (map f xs)" and "sorted (map f ys)"
    and "distinct (map f xs)"
  shows "xs = ys"
proof -
  from assms(1) have "mset (map f xs) = mset (map f ys)" by simp
  with assms(4) have dy: "distinct (map f ys)" using mset_eq_imp_distinct_iff by blast
  from assms(1) have st: "set xs = set ys" by (rule mset_eq_setD)
  from assms(4) have "inj_on f (set xs)" by (simp add: distinct_map)
  with st have "inj_on f (set xs \<union> set ys)" by simp
  then show ?thesis
    using assms(2) assms(4) assms(3) dy st by (rule map_sorted_distinct_set_unique)
qed

lemma dropna_sort_values: "dropna cols (sort_values cols rs) = sort_values cols (dropna cols rs)"
  by (simp add: dropna_def sort_values_def filter_sort)

lemma inj_na_last: "inj na_last"
proof (rule injI)
  fix x y assume "na_last x = na_last y"
  then show "x = y" by (cases x; cases y) simp_all
qed

text \<open>
  Claim C9. Let the rows that have a time and a position have pairwise distinct
  instants. Then whatever sorted arrangement \<open>ys\<close> of all rows the sort returns (the code
  sorts first) and whatever sorted arrangement \<open>zs\<close> of the valid rows (the specification
  drops first), dropping the invalid rows of \<open>ys\<close> gives \<open>zs\<close>; and the code and the
  specification's order of steps give the same rows to the loop and the same result.
\<close>

theorem C9_drop_and_sort_commute:
  assumes "distinct (map (\<lambda>r. to_datetime (get (columns (with_ele df)) r ''timestamp''))
                       (dropna (columns (with_ele df)) (rows (with_ele df))))"
    and "mset ys = mset (rows (with_ele df))"
    and "sorted (map (\<lambda>r. na_last (to_datetime (get (columns (with_ele df)) r ''timestamp''))) ys)"
    and "mset zs = mset (dropna (columns (with_ele df)) (rows (with_ele df)))"
    and "sorted (map (\<lambda>r. na_last (to_datetime (get (columns (with_ele df)) r ''timestamp''))) zs)"
  shows "dropna (columns (with_ele df)) ys = zs \<and>
         track_records df = spec_track_records df \<and>
         process_and_generate_gpx df output_path = spec_process_and_generate_gpx df output_path"
proof -
  let ?cols = "columns (with_ele df)"
  let ?dt = "\<lambda>r. to_datetime (get ?cols r ''timestamp'')"
  let ?key = "\<lambda>r. na_last (?dt r)"
  have m: "mset (dropna ?cols ys) = mset zs"
    using assms(2) assms(4) by (simp add: dropna_def)
  have s: "sorted (map ?key (dropna ?cols ys))"
    using assms(3) by (simp add: dropna_def sorted_filter)
  have "distinct (map na_last (map ?dt (dropna ?cols (rows (with_ele df)))))"
    using assms(1) inj_na_last by (simp only: distinct_map) (blast intro: inj_on_subset)
  then have "distinct (map ?key (dropna ?cols (rows (with_ele df))))" by (simp add: comp_def)
  moreover have "mset (map ?key (dropna ?cols ys)) = mset (map ?key (dropna ?cols (rows (with_ele df))))"
    using m assms(4) by simp
  ultimately have d: "distinct (map ?key (dropna ?cols ys))"
    using mset_eq_imp_distinct_iff by blast
  have 1: "dropna ?cols ys = zs"
    using m s assms(5) d by (rule sorted_by_key_unique)
  have 2: "track_records df = spec_track_records df"
    by (simp add: track_records_def spec_track_records_def dropna_sort_values Let_def)
  then have 3: "process_and_generate_gpx df output_path = spec_process_and_generate_gpx df output_path"
    by (simp add: process_and_generate_gpx_def spec_process_and_generate_gpx_def)
  from 1 2 3 show ?thesis by simp
qed

theorem C9_drop_and_sort_commute_witness:
  "dropna [''timestamp'', ''lat'', ''lon'', ''ele'']
     [[Num (Fin 3), Num NaN, Num (Fin 2), Num (Fin 0)],
        [Num (Fin 5), Num (Fin 4), Num (Fin 2), Num (Fin 9)],
        [Num (Fin 7), Num (Fin 1), Num (Fin 2), Num (Fin 0)],
        [Num NaN, Num (Fin 1), Num (Fin 2), Num (Fin 0)]] = [[Num (Fin 5), Num (Fin 4), Num (Fin 2), Num (Fin 9)],
        [Num (Fin 7), Num (Fin 1), Num (Fin 2), Num (Fin 0)]] \<and>
   track_records \<lparr>columns = [''timestamp'', ''lat'', ''lon'', ''ele''],
       rows = [[Num (Fin 7), Num (Fin 1), Num (Fin 2), Num (Fin 0)],
               [Num NaN, Num (Fin 1), Num (Fin 2), Num (Fin 0)],
               [Num (Fin 3), Num NaN, Num (Fin 2), Num (Fin 0)],
               [Num (Fin 5), Num (Fin 4), Num (Fin 2), Num (Fin 9)]]\<rparr> = spec_track_records \<lparr>columns = [''timestamp'', ''lat'', ''lon'', ''ele''],
       rows = [[Num (Fin 7), Num (Fin 1), Num (Fin 2), Num (Fin 0)],
               [Num NaN, Num (Fin 1), Num (Fin 2), Num (Fin 0)],
               [Num (Fin 3), Num NaN, Num (Fin 2), Num (Fin 0)],
               [Num (Fin 5), Num (Fin 4), Num (Fin 2), Num (Fin 9)]]\<rparr> \<and>
   track_records \<lparr>columns = [''timestamp'', ''lat'', ''lon'', ''ele''],
       rows = [[Num (Fin 7), Num (Fin 1), Num (Fin 2), Num (Fin 0)],
               [Num NaN, Num (Fin 1), Num (Fin 2), Num (Fin 0)],
               [Num (Fin 3), Num NaN, Num (Fin 2), Num (Fin 0)],
               [Num (Fin 5), Num (Fin 4), Num (Fin 2), Num (Fin 9)]]\<rparr> =
     Inr [\<lparr>dt_object = 5, lat = Fin 4, lon = Fin 2, ele = Fin 9\<rparr>,
          \<lparr>dt_object = 7, lat = Fin 1, lon = Fin 2, ele = Fin 0\<rparr>] \<and>
   process_and_generate_gpx \<lparr>columns = [''timestamp'', ''lat'', ''lon'', ''ele''],
       rows = [[Num (Fin 7), Num (Fin 1), Num (Fin 2), Num (Fin 0)],
               [Num NaN, Num (Fin 1), Num (Fin 2), Num (Fin 0)],
               [Num (Fin 3), Num NaN, Num (Fin 2), Num (Fin 0)],
               [Num (Fin 5), Num (Fin 4), Num (Fin 2), Num (Fin 9)]]\<rparr> ''output/a.gpx'' = spec_process_and_generate_gpx \<lparr>columns = [''timestamp'', ''lat'', ''lon'', ''ele''],
       rows = [[Num (Fin 7), Num (Fin 1), Num (Fin 2), Num (Fin 0)],
               [Num NaN, Num (Fin 1), Num (Fin 2), Num (Fin 0)],
               [Num (Fin 3), Num NaN, Num (Fin 2), Num (Fin 0)],
               [Num (Fin 5), Num (Fin 4), Num (Fin 2), Num (Fin 9)]]\<rparr> ''output/a.gpx''"
proof -
  let ?df = "\<lparr>columns = [''timestamp'', ''lat'', ''lon'', ''ele''],
       rows = [[Num (Fin 7), Num (Fin 1), Num (Fin 2), Num (Fin 0)],
               [Num NaN, Num (Fin 1), Num (Fin 2), Num (Fin 0)],
               [Num (Fin 3), Num NaN, Num (Fin 2), Num (Fin 0)],
               [Num (Fin 5), Num (Fin 4), Num (Fin 2), Num (Fin 9)]]\<rparr>"
  let ?ys = "[[Num (Fin 3), Num NaN, Num (Fin 2), Num (Fin 0)],
        [Num (Fin 5), Num (Fin 4), Num (Fin 2), Num (Fin 9)],
        [Num (Fin 7), Num (Fin 1), Num (Fin 2), Num (Fin 0)],
        [Num NaN, Num (Fin 1), Num (Fin 2), Num (Fin 0)]]"
  let ?zs = "[[Num (Fin 5), Num (Fin 4), Num (Fin 2), Num (Fin 9)],
        [Num (Fin 7), Num (Fin 1), Num (Fin 2), Num (Fin 0)]]"
  have w: "with_ele ?df = ?df" by (simp add: with_ele_def)
  have dn: "dropna (columns ?df) (rows ?df) = [[Num (Fin 7), Num (Fin 1), Num (Fin 2), Num (Fin 0)],
               [Num (Fin 5), Num (Fin 4), Num (Fin 2), Num (Fin 9)]]"
    by code_simp
  have a1: "distinct (map (\<lambda>r. to_datetime (get (columns (with_ele ?df)) r ''timestamp''))
                       (dropna (columns (with_ele ?df)) (rows (with_ele ?df))))"
    unfolding w dn by (simp add: get_def)
  have a2: "mset ?ys = mset (rows (with_ele ?df))"
    unfolding w by (simp add: add_mset_commute)
  have a3: "sorted (map (\<lambda>r. na_last (to_datetime (get (columns (with_ele ?df)) r ''timestamp''))) ?ys)"
    unfolding w by (simp add: get_def)
  have a4: "mset ?zs = mset (dropna (columns (with_ele ?df)) (rows (with_ele ?df)))"
    unfolding w dn by (simp add: add_mset_commute)
  have a5: "sorted (map (\<lambda>r. na_last (to_datetime (get (columns (with_ele ?df)) r ''timestamp''))) ?zs)"
    unfolding w by (simp add: get_def)
  have tr: "track_records ?df =
     Inr [\<lparr>dt_object = 5, lat = Fin 4, lon = Fin 2, ele = Fin 9\<rparr>,
          \<lparr>dt_object = 7, lat = Fin 1, lon = Fin 2, ele = Fin 0\<rparr>]"
    by code_simp
  from C9_drop_and_sort_commute [OF a1 a2 a3 a4 a5, of "''output/a.gpx''"] tr
  show ?thesis unfolding w by simp
qed


section \<open>A time that is not a number\<close>

lemma map_of_zip_update_at:
  "map_of (zip cols (update_at l f cols r)) k =
     (if k = l then map_option f (map_of (zip cols r) l) else map_of (zip cols r) k)"
  by (induction l f cols r rule: update_at.induct) auto

lemma map_of_zip_append:
  "map_of (zip cols r) k = Some v \<Longrightarrow> map_of (zip (cols @ cs) (r @ xs)) k = Some v"
proof (induction cols arbitrary: r)
  case Nil
  then show ?case by simp
next
  case (Cons c cols)
  then show ?case by (cases r) (auto split: if_splits)
qed

lemma to_numeric_not_text: "\<not> is_text (to_numeric c)"
  by (cases c) simp_all

lemma get_in_row:
  "list_all (\<lambda>x. \<not> is_text x) xs \<Longrightarrow> \<not> is_text (get cols xs l)"
proof -
  assume a: "list_all (\<lambda>x. \<not> is_text x) xs"
  show ?thesis
  proof (cases "map_of (zip cols xs) l")
    case None
    then show ?thesis by (simp add: get_def)
  next
    case (Some v)
    then have "(l, v) \<in> set (zip cols xs)" by (rule map_of_SomeD)
    then have "v \<in> set xs" by (rule set_zip_rightD)
    with a Some show ?thesis by (simp add: get_def list_all_iff)
  qed
qed

lemma coerced_not_text:
  assumes "l \<in> set cols" and "list_all (\<lambda>x. \<not> is_text x) xs"
  shows "\<not> is_text (get (cols @ cs) (update_at l to_numeric cols r @ xs) l)"
  using assms(1)
proof (induction cols arbitrary: r)
  case Nil
  then show ?case by simp
next
  case (Cons c cols)
  show ?case
  proof (cases r)
    case Nil
    then show ?thesis using get_in_row [OF assms(2)] by simp
  next
    case (Cons x r')
    show ?thesis
    proof (cases "c = l")
      case True
      then show ?thesis by (simp add: Cons get_def to_numeric_not_text)
    next
      case False
      with Cons.prems have "l \<in> set cols" by simp
      from Cons.IH [OF this, of r'] False show ?thesis
        by (simp add: Cons get_def)
    qed
  qed
qed

lemma coerced_text_is_NaN:
  assumes "is_text (get cols r l)"
  shows "get (cols @ cs) (update_at l to_numeric cols r @ xs) l = Num NaN"
proof -
  from assms obtain s where "map_of (zip cols r) l = Some (Text s)"
    by (auto simp add: get_def split: option.splits elim: is_text.elims)
  then have "map_of (zip cols (update_at l to_numeric cols r)) l = Some (Num NaN)"
    by (simp add: map_of_zip_update_at)
  then have "map_of (zip (cols @ cs) (update_at l to_numeric cols r @ xs)) l = Some (Num NaN)"
    by (rule map_of_zip_append)
  then show ?thesis by (simp add: get_def)
qed


lemma rename_mem:
  "c \<in> set cols \<Longrightarrow> map_of m c = Some c' \<Longrightarrow> c' \<in> set (rename m cols)"
  by (force simp add: rename_def)

lemma standardize_Some:
  assumes "standardize_dataframe df filename = Some (std_df, fmt_type)"
  shows "''timestamp'' \<in> set (columns std_df)"
    and "rows std_df = map (update_at ''timestamp'' to_numeric (columns std_df)) (rows df)"
    and "standardize_dataframe (df\<lparr>rows := rs'\<rparr>) filename =
           Some (\<lparr>columns = columns std_df,
                   rows = map (update_at ''timestamp'' to_numeric (columns std_df)) rs'\<rparr>, fmt_type)"
proof -
  let ?cols = "map strip (columns df)"
  let ?mA = "[(''Time'', ''timestamp''), (''Latitude'', ''lat''),
              (''Longitude'', ''lon''), (''Height'', ''ele'')]"
  let ?mB = "[(''dataTime'', ''timestamp''), (''latitude'', ''lat''),
              (''longitude'', ''lon''), (''altitude'', ''ele'')]"
  define A where "A \<longleftrightarrow> ''Time'' \<in> set ?cols \<and> ''Latitude'' \<in> set ?cols \<and> ''Longitude'' \<in> set ?cols"
  define B where "B \<longleftrightarrow> ''dataTime'' \<in> set ?cols \<and> ''latitude'' \<in> set ?cols \<and> ''longitude'' \<in> set ?cols"
  define norm where "norm m x = \<lparr>columns = rename m ?cols,
      rows = map (update_at ''timestamp'' to_numeric (rename m ?cols)) x\<rparr>" for m x
  have eq: "standardize_dataframe (df\<lparr>rows := x\<rparr>) filename =
      (if A then Some (norm ?mA x, ''Variflight'')
       else if B then Some (norm ?mB x, ''Footprint'') else None)" for x
    by (simp add: standardize_dataframe_def Let_def A_def B_def norm_def)
  from eq [of "rows df"] assms have eq0: "(if A then Some (norm ?mA (rows df), ''Variflight'')
       else if B then Some (norm ?mB (rows df), ''Footprint'') else None) = Some (std_df, fmt_type)"
    by simp
  have "\<exists>m c. c \<in> set ?cols \<and> map_of m c = Some ''timestamp'' \<and>
          std_df = norm m (rows df) \<and>
          standardize_dataframe (df\<lparr>rows := rs'\<rparr>) filename = Some (norm m rs', fmt_type)"
  proof (cases A)
    case True
    with eq0 have "std_df = norm ?mA (rows df)" and "fmt_type = ''Variflight''" by simp_all
    moreover from True have "''Time'' \<in> set ?cols" by (simp add: A_def)
    ultimately show ?thesis
      using True eq [of rs'] by (intro exI [of _ ?mA] exI [of _ "''Time''"]) simp
  next
    case False
    show ?thesis
    proof (cases B)
      case True
      with False eq0 have "std_df = norm ?mB (rows df)" and "fmt_type = ''Footprint''" by simp_all
      moreover from True have "''dataTime'' \<in> set ?cols" by (simp add: B_def)
      ultimately show ?thesis
        using True False eq [of rs'] by (intro exI [of _ ?mB] exI [of _ "''dataTime''"]) simp
    next
      case nB: False
      with False eq0 show ?thesis by simp
    qed
  qed
  then obtain m c where c: "c \<in> set ?cols" "map_of m c = Some ''timestamp''"
    and sd: "std_df = norm m (rows df)"
    and again: "standardize_dataframe (df\<lparr>rows := rs'\<rparr>) filename = Some (norm m rs', fmt_type)"
    by blast
  from sd have cols: "columns std_df = rename m ?cols" by (simp add: norm_def)
  from c show "''timestamp'' \<in> set (columns std_df)" unfolding cols by (rule rename_mem)
  from sd show "rows std_df = map (update_at ''timestamp'' to_numeric (columns std_df)) (rows df)"
    by (simp add: norm_def)
  from again show "standardize_dataframe (df\<lparr>rows := rs'\<rparr>) filename =
           Some (\<lparr>columns = columns std_df,
                   rows = map (update_at ''timestamp'' to_numeric (columns std_df)) rs'\<rparr>, fmt_type)"
    by (simp add: norm_def cols)
qed

lemma kept_rows_without_text:
  fixes cols :: "string list"
  defines "h \<equiv> \<lambda>cs xs r. update_at ''timestamp'' to_numeric cols r @ xs"
  assumes "''timestamp'' \<in> set cols" and "list_all (\<lambda>x. \<not> is_text x) xs"
  shows "dropna (cols @ cs) (sort_values (cols @ cs) (map (h cs xs) rs)) =
         dropna (cols @ cs) (sort_values (cols @ cs)
           (map (h cs xs) (filter (\<lambda>r. \<not> is_text (get cols r ''timestamp'')) rs)))"
    and "\<not> list_ex (\<lambda>r. is_text (get (cols @ cs) r ''timestamp'')) (map (h cs xs) rs)"
proof -
  have bad: "\<not> notna (cols @ cs) (h cs xs r)" if "is_text (get cols r ''timestamp'')" for r
    using coerced_text_is_NaN [OF that, of cs xs] by (simp add: notna_def h_def)
  have "filter (notna (cols @ cs)) (map (h cs xs) rs) =
        filter (notna (cols @ cs)) (map (h cs xs) (filter (\<lambda>r. \<not> is_text (get cols r ''timestamp'')) rs))"
    by (induction rs) (auto simp add: bad)
  then show "dropna (cols @ cs) (sort_values (cols @ cs) (map (h cs xs) rs)) =
         dropna (cols @ cs) (sort_values (cols @ cs)
           (map (h cs xs) (filter (\<lambda>r. \<not> is_text (get cols r ''timestamp'')) rs)))"
    by (simp add: dropna_sort_values) (simp add: dropna_def)
  show "\<not> list_ex (\<lambda>r. is_text (get (cols @ cs) r ''timestamp'')) (map (h cs xs) rs)"
    using coerced_not_text [OF assms(2,3)] by (simp add: list_ex_iff h_def)
qed

lemma track_records_without_text:
  assumes "''timestamp'' \<in> set cols"
  shows "track_records \<lparr>columns = cols, rows = map (update_at ''timestamp'' to_numeric cols) rs\<rparr> =
         track_records \<lparr>columns = cols, rows = map (update_at ''timestamp'' to_numeric cols)
                          (filter (\<lambda>r. \<not> is_text (get cols r ''timestamp'')) rs)\<rparr>"
proof (cases "''ele'' \<in> set cols")
  case True
  have x: "list_all (\<lambda>x. \<not> is_text x) []" by simp
  from kept_rows_without_text [OF assms x, of "[]"] True show ?thesis
    by (simp add: track_records_def with_ele_def Let_def)
next
  case False
  have x: "list_all (\<lambda>x. \<not> is_text x) [Num (Fin 0)]" by simp
  from kept_rows_without_text [OF assms x, of "[''ele'']"] False show ?thesis
    by (simp add: track_records_def with_ele_def Let_def comp_def)
qed

text \<open>
  Claim C8. Let the columns of a frame be recognized, and let a row have text that is not
  a number in the time column (the column that the renaming labels \<open>timestamp\<close>).
  \<open>standardize_dataframe\<close> returns the frame with NaN in that cell (it raises nothing),
  and the conversion of the standardized frame gives exactly what it gives for the file
  without such rows: the row is dropped and the other rows are converted as usual.
\<close>

theorem C8_unparsable_timestamp:
  assumes "standardize_dataframe df filename = Some (std_df, fmt_type)"
  shows "(is_text (get (columns std_df) r ''timestamp'') \<longrightarrow>
            get (columns std_df) (update_at ''timestamp'' to_numeric (columns std_df) r) ''timestamp''
              = Num NaN) \<and>
         rows std_df = map (update_at ''timestamp'' to_numeric (columns std_df)) (rows df) \<and>
         (\<exists>std_df'.
            standardize_dataframe
              (df\<lparr>rows := filter (\<lambda>r. \<not> is_text (get (columns std_df) r ''timestamp'')) (rows df)\<rparr>)
              filename = Some (std_df', fmt_type) \<and>
            process_and_generate_gpx std_df output_path =
              process_and_generate_gpx std_df' output_path)"
proof -
  let ?cols = "columns std_df"
  let ?upd = "update_at ''timestamp'' to_numeric ?cols"
  let ?ok = "\<lambda>r. \<not> is_text (get ?cols r ''timestamp'')"
  note st = standardize_Some [OF assms]
  have 1: "is_text (get ?cols r ''timestamp'') \<longrightarrow> get ?cols (?upd r) ''timestamp'' = Num NaN"
    using coerced_text_is_NaN [of ?cols r "''timestamp''" "[]" "[]"] by simp
  have sd: "std_df = \<lparr>columns = ?cols, rows = map ?upd (rows df)\<rparr>"
    using st(2) by simp
  have "track_records std_df = track_records \<lparr>columns = ?cols, rows = map ?upd (filter ?ok (rows df))\<rparr>"
    using track_records_without_text [OF st(1), of "rows df"] sd by simp
  then have "process_and_generate_gpx std_df output_path =
      process_and_generate_gpx \<lparr>columns = ?cols, rows = map ?upd (filter ?ok (rows df))\<rparr> output_path"
    by (simp add: process_and_generate_gpx_def)
  with 1 st(2) st(3) [of "filter ?ok (rows df)"] show ?thesis by blast
qed


theorem C8_unparsable_timestamp_witness:
  "standardize_dataframe \<lparr>columns = [''Time'', '' Latitude'', ''Longitude'', ''Height''],
       rows = [[Num (Fin 2), Num (Fin 1), Num (Fin 2), Num (Fin 7)],
               [Text ''n/a'', Num (Fin 5), Num (Fin 6), Num (Fin 7)],
               [Num (Fin 0), Num (Fin 1), Num (Fin 2), Num (Fin 7)]]\<rparr> ''a.csv'' = Some (\<lparr>columns = [''timestamp'', ''lat'', ''lon'', ''ele''],
       rows = [[Num (Fin 2), Num (Fin 1), Num (Fin 2), Num (Fin 7)],
               [Num NaN, Num (Fin 5), Num (Fin 6), Num (Fin 7)],
               [Num (Fin 0), Num (Fin 1), Num (Fin 2), Num (Fin 7)]]\<rparr>, ''Variflight'') \<and>
   is_text (get (columns \<lparr>columns = [''timestamp'', ''lat'', ''lon'', ''ele''],
       rows = [[Num (Fin 2), Num (Fin 1), Num (Fin 2), Num (Fin 7)],
               [Num NaN, Num (Fin 5), Num (Fin 6), Num (Fin 7)],
               [Num (Fin 0), Num (Fin 1), Num (Fin 2), Num (Fin 7)]]\<rparr>) [Text ''n/a'', Num (Fin 5), Num (Fin 6), Num (Fin 7)] ''timestamp'') \<and>
   get (columns \<lparr>columns = [''timestamp'', ''lat'', ''lon'', ''ele''],
       rows = [[Num (Fin 2), Num (Fin 1), Num (Fin 2), Num (Fin 7)],
               [Num NaN, Num (Fin 5), Num (Fin 6), Num (Fin 7)],
               [Num (Fin 0), Num (Fin 1), Num (Fin 2), Num (Fin 7)]]\<rparr>) (update_at ''timestamp'' to_numeric (columns \<lparr>columns = [''timestamp'', ''lat'', ''lon'', ''ele''],
       rows = [[Num (Fin 2), Num (Fin 1), Num (Fin 2), Num (Fin 7)],
               [Num NaN, Num (Fin 5), Num (Fin 6), Num (Fin 7)],
               [Num (Fin 0), Num (Fin 1), Num (Fin 2), Num (Fin 7)]]\<rparr>) [Text ''n/a'', Num (Fin 5), Num (Fin 6), Num (Fin 7)]) ''timestamp'' = Num NaN \<and>
   (\<exists>std_df'.
      standardize_dataframe
        (\<lparr>columns = [''Time'', '' Latitude'', ''Longitude'', ''Height''],
       rows = [[Num (Fin 2), Num (Fin 1), Num (Fin 2), Num (Fin 7)],
               [Text ''n/a'', Num (Fin 5), Num (Fin 6), Num (Fin 7)],
               [Num (Fin 0), Num (Fin 1), Num (Fin 2), Num (Fin 7)]]\<rparr>\<lparr>rows := filter (\<lambda>r. \<not> is_text (get (columns \<lparr>columns = [''timestamp'', ''lat'', ''lon'', ''ele''],
       rows = [[Num (Fin 2), Num (Fin 1), Num (Fin 2), Num (Fin 7)],
               [Num NaN, Num (Fin 5), Num (Fin 6), Num (Fin 7)],
               [Num (Fin 0), Num (Fin 1), Num (Fin 2), Num (Fin 7)]]\<rparr>) r ''timestamp'')) (rows \<lparr>columns = [''Time'', '' Latitude'', ''Longitude'', ''Height''],
       rows = [[Num (Fin 2), Num (Fin 1), Num (Fin 2), Num (Fin 7)],
               [Text ''n/a'', Num (Fin 5), Num (Fin 6), Num (Fin 7)],
               [Num (Fin 0), Num (Fin 1), Num (Fin 2), Num (Fin 7)]]\<rparr>)\<rparr>)
        ''a.csv'' = Some (std_df', ''Variflight'') \<and>
      process_and_generate_gpx \<lparr>columns = [''timestamp'', ''lat'', ''lon'', ''ele''],
       rows = [[Num (Fin 2), Num (Fin 1), Num (Fin 2), Num (Fin 7)],
               [Num NaN, Num (Fin 5), Num (Fin 6), Num (Fin 7)],
               [Num (Fin 0), Num (Fin 1), Num (Fin 2), Num (Fin 7)]]\<rparr> ''output/a.gpx'' = process_and_generate_gpx std_df' ''output/a.gpx'') \<and>
   process_and_generate_gpx \<lparr>columns = [''timestamp'', ''lat'', ''lon'', ''ele''],
       rows = [[Num (Fin 2), Num (Fin 1), Num (Fin 2), Num (Fin 7)],
               [Num NaN, Num (Fin 5), Num (Fin 6), Num (Fin 7)],
               [Num (Fin 0), Num (Fin 1), Num (Fin 2), Num (Fin 7)]]\<rparr> ''output/a.gpx'' = Inr (\<lparr>trk_name = ''a'',
            trksegs = [[\<lparr>pt_lat = ''1.000000'', pt_lon = ''2.000000'', pt_ele = ''7.00'', pt_time = 0\<rparr>,
                        \<lparr>pt_lat = ''1.000000'', pt_lon = ''2.000000'', pt_ele = ''7.00'', pt_time = 1\<rparr>,
                        \<lparr>pt_lat = ''1.000000'', pt_lon = ''2.000000'', pt_ele = ''7.00'', pt_time = 2\<rparr>]]\<rparr>, 2)"
proof -
  have a: "standardize_dataframe \<lparr>columns = [''Time'', '' Latitude'', ''Longitude'', ''Height''],
       rows = [[Num (Fin 2), Num (Fin 1), Num (Fin 2), Num (Fin 7)],
               [Text ''n/a'', Num (Fin 5), Num (Fin 6), Num (Fin 7)],
               [Num (Fin 0), Num (Fin 1), Num (Fin 2), Num (Fin 7)]]\<rparr> ''a.csv'' = Some (\<lparr>columns = [''timestamp'', ''lat'', ''lon'', ''ele''],
       rows = [[Num (Fin 2), Num (Fin 1), Num (Fin 2), Num (Fin 7)],
               [Num NaN, Num (Fin 5), Num (Fin 6), Num (Fin 7)],
               [Num (Fin 0), Num (Fin 1), Num (Fin 2), Num (Fin 7)]]\<rparr>, ''Variflight'')"
    by code_simp
  have b: "is_text (get (columns \<lparr>columns = [''timestamp'', ''lat'', ''lon'', ''ele''],
       rows = [[Num (Fin 2), Num (Fin 1), Num (Fin 2), Num (Fin 7)],
               [Num NaN, Num (Fin 5), Num (Fin 6), Num (Fin 7)],
               [Num (Fin 0), Num (Fin 1), Num (Fin 2), Num (Fin 7)]]\<rparr>) [Text ''n/a'', Num (Fin 5), Num (Fin 6), Num (Fin 7)] ''timestamp'')"
    by (simp add: get_def)
  have c: "process_and_generate_gpx \<lparr>columns = [''timestamp'', ''lat'', ''lon'', ''ele''],
       rows = [[Num (Fin 2), Num (Fin 1), Num (Fin 2), Num (Fin 7)],
               [Num NaN, Num (Fin 5), Num (Fin 6), Num (Fin 7)],
               [Num (Fin 0), Num (Fin 1), Num (Fin 2), Num (Fin 7)]]\<rparr> ''output/a.gpx'' = Inr (\<lparr>trk_name = ''a'',
            trksegs = [[\<lparr>pt_lat = ''1.000000'', pt_lon = ''2.000000'', pt_ele = ''7.00'', pt_time = 0\<rparr>,
                        \<lparr>pt_lat = ''1.000000'', pt_lon = ''2.000000'', pt_ele = ''7.00'', pt_time = 1\<rparr>,
                        \<lparr>pt_lat = ''1.000000'', pt_lon = ''2.000000'', pt_ele = ''7.00'', pt_time = 2\<rparr>]]\<rparr>, 2)"
    by code_simp
  from C8_unparsable_timestamp [OF a, of "[Text ''n/a'', Num (Fin 5), Num (Fin 6), Num (Fin 7)]" "''output/a.gpx''"] a b c
  show ?thesis by blast
qed


section \<open>An elevation that is not a number\<close>










section \<open>The empty frame\<close>

lemma no_valid_row_raises:
  "track_records df = Inr [] \<Longrightarrow> process_and_generate_gpx df output_path = Inl IndexError"
  by (simp add: process_and_generate_gpx_def build_track_def)

text \<open>
  Claim C4 asks that a frame without a valid row be converted to an empty track with zero
  points. The code reads \<open>df.iloc[-1]\<close> without a guard: on a file whose only row has no
  latitude the conversion raises IndexError, \<open>main\<close> reports the exception and no file is
  written; the same happens on a frame with a header and no row.
\<close>

theorem C4_empty_frame_raises:
  "main [(''a.csv'', Inr \<lparr>columns = [''Time'', ''Latitude'', ''Longitude''],
                            rows = [[Num (Fin 0), Num NaN, Num (Fin 2)]]\<rparr>)]
     = ([], [Failed IndexError]) \<and>
   process_and_generate_gpx \<lparr>columns = [''timestamp'', ''lat'', ''lon''], rows = []\<rparr>
     ''output/a.gpx'' = Inl IndexError \<and>
   build_track [] = Inl IndexError"
  by code_simp

end
